theory Spec2Isabelle
  imports Main
begin

section \<open>Data model\<close>

text \<open>
  An instant of \<^verbatim>\<open>time.Time\<close>, as a count of nanoseconds. \<^verbatim>\<open>t.After(u)\<close> of Go's
  standard library reports whether \<open>t\<close> is strictly later than \<open>u\<close>.
\<close>

type_synonym Time = int

definition After :: "Time \<Rightarrow> Time \<Rightarrow> bool" where
  "After t u = (u < t)"

text \<open>
  The two package-level error values of \<^verbatim>\<open>record-processor-checkpointer.go\<close>, and
  \<open>LedgerError\<close> for any other error value a ledger implementation hands back.
\<close>

datatype error = ShutdownError | LeaseExpiredError | LedgerError string

text \<open>
  Modelled from the spec: the declaration of \<^verbatim>\<open>par.ShardStatus\<close> is in package
  \<^verbatim>\<open>partition\<close>, outside the file at hand. The Shard Ownership Handle has a shard
  identifier, the current owner identity, the lease expiry timestamp and the last
  checkpoint value, which the source reads as \<^verbatim>\<open>ID\<close>, \<^verbatim>\<open>AssignedTo\<close>,
  \<^verbatim>\<open>LeaseTimeout\<close> and writes through \<^verbatim>\<open>SetCheckpoint\<close>. The checkpoint value is a
  string: \<^verbatim>\<open>SetCheckpoint\<close> receives both \<^verbatim>\<open>chk.ShardEnd\<close> and the result of
  \<^verbatim>\<open>aws.ToString\<close>.
\<close>

record ShardStatus =
  ID :: string
  AssignedTo :: string
  LeaseTimeout :: Time
  Checkpoint :: string

definition SetCheckpoint :: "ShardStatus \<Rightarrow> string \<Rightarrow> ShardStatus" where
  "SetCheckpoint ss c = ss\<lparr>Checkpoint := c\<rparr>"

text \<open>
  Modelled from the spec: the declaration of \<^verbatim>\<open>kcl.ExtendedSequenceNumber\<close> is in
  package \<^verbatim>\<open>interfaces\<close>. It is a sequence-position string (a \<^verbatim>\<open>*string\<close>, since
  the source passes the field to a \<^verbatim>\<open>*string\<close> parameter) with a sub-sequence number
  ordering the records of one batch.
\<close>

record ExtendedSequenceNumber =
  SequenceNumber :: "string option"
  SubSequenceNumber :: int

text \<open>\<^verbatim>\<open>aws.ToString\<close> of the AWS SDK: the pointee, or the empty string for nil.\<close>

definition aws_ToString :: "string option \<Rightarrow> string" where
  "aws_ToString p = (case p of None \<Rightarrow> [] | Some v \<Rightarrow> v)"

section \<open>The Lease Ledger and the surroundings\<close>

text \<open>
  Modelled from the spec: the interface \<^verbatim>\<open>chk.Checkpointer\<close> is declared in package
  \<^verbatim>\<open>checkpoint\<close>. The source calls two of its methods, with the signatures
  \<^verbatim>\<open>GetLeaseOwner(shardID) (string, error)\<close> and \<^verbatim>\<open>CheckpointSequence(shard) error\<close>.
  An implementation is a pair of functions over the state \<open>'w\<close> of everything outside
  the worker (the store, the clock); each call may change that state. The persist
  operation reads the handle it is given.
\<close>

record 'w Checkpointer =
  GetLeaseOwner :: "string \<Rightarrow> 'w \<Rightarrow> (string \<times> error option) \<times> 'w"
  CheckpointSequence :: "ShardStatus \<Rightarrow> 'w \<Rightarrow> error option \<times> 'w"

text \<open>
  What the source takes from other packages besides the ledger: the clock read by
  \<^verbatim>\<open>time.Now()\<close> and the string constant \<^verbatim>\<open>chk.ShardEnd\<close>, whose declaration is not in
  the file at hand; both are parameters of the model.
\<close>

record 'w globals =
  time_Now :: "'w \<Rightarrow> Time"
  chk_ShardEnd :: string

text \<open>
  The calls made on the ledger are recorded in order, next to the outside state, so
  that "the persist operation is not invoked" can be said.
\<close>

datatype call = Call_GetLeaseOwner string | Call_CheckpointSequence ShardStatus

record 'w st =
  world :: 'w
  calls :: "call list"

text \<open>A Go call either returns its result or panics (a nil dereference here).\<close>

datatype 'a outcome = Returns 'a | Panics

section \<open>The coordinator and the token\<close>

text \<open>
  \<^verbatim>\<open>RecordProcessorCheckpointer\<close>: a pointer to the handle and the ledger interface;
  \<open>None\<close> is nil. The handle is mutated in place by \<^verbatim>\<open>Checkpoint\<close>, so the operations
  return the coordinator with the handle as it is afterwards.
\<close>

record 'w RecordProcessorCheckpointer =
  shard :: "ShardStatus option"
  checkpoint :: "'w Checkpointer option"

text \<open>
  \<^verbatim>\<open>PreparedCheckpointer\<close>: a nullable pointer to the pinned position and an interface
  value \<^verbatim>\<open>kcl.IRecordProcessorCheckpointer\<close>, whose one implementation in the package
  is the coordinator above.
\<close>

record 'w PreparedCheckpointer =
  pendingCheckpointSequenceNumber :: "ExtendedSequenceNumber option"
  checkpointer :: "'w RecordProcessorCheckpointer option"

definition NewRecordProcessorCheckpoint ::
  "ShardStatus option \<Rightarrow> 'w Checkpointer option \<Rightarrow> 'w RecordProcessorCheckpointer" where
  "NewRecordProcessorCheckpoint sh ck = \<lparr>shard = sh, checkpoint = ck\<rparr>"

definition GetPendingCheckpoint ::
  "'w PreparedCheckpointer \<Rightarrow> ExtendedSequenceNumber option" where
  "GetPendingCheckpoint pc = pendingCheckpointSequenceNumber pc"

text \<open>
  \<^verbatim>\<open>(rc *RecordProcessorCheckpointer) Checkpoint(sequenceNumber *string) error\<close>.
  Evaluating \<^verbatim>\<open>rc.checkpoint.GetLeaseOwner(rc.shard.ID)\<close> with a nil handle or a nil
  ledger panics before any call is made.
\<close>

definition RecordProcessorCheckpointer_Checkpoint ::
  "'w globals \<Rightarrow> 'w RecordProcessorCheckpointer \<Rightarrow> string option \<Rightarrow> 'w st
     \<Rightarrow> error option outcome \<times> 'w RecordProcessorCheckpointer \<times> 'w st" where
  "RecordProcessorCheckpointer_Checkpoint g rc sequenceNumber s =
     (case shard rc of
        None \<Rightarrow> (Panics, rc, s)
      | Some sh \<Rightarrow>
          (case checkpoint rc of
             None \<Rightarrow> (Panics, rc, s)
           | Some ck \<Rightarrow>
               (case GetLeaseOwner ck (ID sh) (world s) of
                  ((currLeaseOwner, err), w1) \<Rightarrow>
                    let s1 = \<lparr>world = w1, calls = calls s @ [Call_GetLeaseOwner (ID sh)]\<rparr> in
                    if err \<noteq> None then (Returns err, rc, s1)
                    else if AssignedTo sh \<noteq> currLeaseOwner
                      then (Returns (Some ShutdownError), rc, s1)
                    else if After (time_Now g w1) (LeaseTimeout sh)
                      then (Returns (Some LeaseExpiredError), rc, s1)
                    else
                      let sh' = (if sequenceNumber = None
                                 then SetCheckpoint sh (chk_ShardEnd g)
                                 else SetCheckpoint sh (aws_ToString sequenceNumber))
                      in (case CheckpointSequence ck sh' w1 of
                            (err', w2) \<Rightarrow>
                              (Returns err', rc\<lparr>shard := Some sh'\<rparr>,
                               \<lparr>world = w2,
                                calls = calls s1 @ [Call_CheckpointSequence sh']\<rparr>)))))"

text \<open>
  \<^verbatim>\<open>(rc *RecordProcessorCheckpointer) PrepareCheckpoint(_ *string)\<close>: the argument is
  not bound, and the token is the zero value of the struct, both fields nil. The
  state is passed through untouched.
\<close>

definition RecordProcessorCheckpointer_PrepareCheckpoint ::
  "'w RecordProcessorCheckpointer \<Rightarrow> string option \<Rightarrow> 'w st
     \<Rightarrow> ('w PreparedCheckpointer \<times> error option) \<times> 'w st" where
  "RecordProcessorCheckpointer_PrepareCheckpoint rc unused s =
     ((\<lparr>pendingCheckpointSequenceNumber = None, checkpointer = None\<rparr>, None), s)"

text \<open>
  \<^verbatim>\<open>(pc *PreparedCheckpointer) Checkpoint() error\<close>: reading \<^verbatim>\<open>SequenceNumber\<close> through
  a nil pointer panics, and so does a method call on a nil interface value.
\<close>

definition PreparedCheckpointer_Checkpoint ::
  "'w globals \<Rightarrow> 'w PreparedCheckpointer \<Rightarrow> 'w st
     \<Rightarrow> error option outcome \<times> 'w PreparedCheckpointer \<times> 'w st" where
  "PreparedCheckpointer_Checkpoint g pc s =
     (case pendingCheckpointSequenceNumber pc of
        None \<Rightarrow> (Panics, pc, s)
      | Some esn \<Rightarrow>
          (case checkpointer pc of
             None \<Rightarrow> (Panics, pc, s)
           | Some rc \<Rightarrow>
               (case RecordProcessorCheckpointer_Checkpoint g rc (SequenceNumber esn) s of
                  (r, rc', s') \<Rightarrow> (r, pc\<lparr>checkpointer := Some rc'\<rparr>, s'))))"

text \<open>The value written to the handle for a position, absent or concrete.\<close>

definition recorded :: "'w globals \<Rightarrow> string option \<Rightarrow> string" where
  "recorded g q = (case q of None \<Rightarrow> chk_ShardEnd g | Some v \<Rightarrow> v)"

section \<open>An in-memory ledger\<close>

text \<open>
  A ledger kept in memory, to run the operations on concrete inputs: a clock, the
  recorded owner of each shard, the persisted checkpoints, and whether the store
  accepts writes.
\<close>

record MemLedger =
  wallclock :: Time
  owners :: "(string \<times> string) list"
  persisted :: "(string \<times> string) list"
  writable :: bool

definition mem_GetLeaseOwner :: "string \<Rightarrow> MemLedger \<Rightarrow> (string \<times> error option) \<times> MemLedger" where
  "mem_GetLeaseOwner shardID w =
     (case map_of (owners w) shardID of
        None \<Rightarrow> (([], Some (LedgerError ''store unavailable'')), w)
      | Some owner \<Rightarrow> ((owner, None), w))"

definition mem_CheckpointSequence :: "ShardStatus \<Rightarrow> MemLedger \<Rightarrow> error option \<times> MemLedger" where
  "mem_CheckpointSequence sh w =
     (if writable w
      then (None, w\<lparr>persisted := (ID sh, Checkpoint sh) # persisted w\<rparr>)
      else (Some (LedgerError ''write rejected''), w))"

definition mem_ledger :: "MemLedger Checkpointer" where
  "mem_ledger = \<lparr>GetLeaseOwner = mem_GetLeaseOwner, CheckpointSequence = mem_CheckpointSequence\<rparr>"

definition mem_globals :: "MemLedger globals" where
  "mem_globals = \<lparr>time_Now = wallclock, chk_ShardEnd = ''SHARD_END''\<rparr>"

definition shard_W1 :: "Time \<Rightarrow> ShardStatus" where
  "shard_W1 expiry = \<lparr>ID = ''shard-0'', AssignedTo = ''W1'', LeaseTimeout = expiry, Checkpoint = []\<rparr>"

definition coordinator_W1 :: "Time \<Rightarrow> MemLedger RecordProcessorCheckpointer" where
  "coordinator_W1 expiry = NewRecordProcessorCheckpoint (Some (shard_W1 expiry)) (Some mem_ledger)"

definition mem_state :: "Time \<Rightarrow> string \<Rightarrow> bool \<Rightarrow> MemLedger st" where
  "mem_state now owner ok =
     \<lparr>world = \<lparr>wallclock = now, owners = [(''shard-0'', owner)], persisted = [], writable = ok\<rparr>,
      calls = []\<rparr>"

section \<open>The token of PrepareCheckpoint\<close>

lemma PrepareCheckpoint_token:
  "fst (fst (RecordProcessorCheckpointer_PrepareCheckpoint rc p s)) =
     \<lparr>pendingCheckpointSequenceNumber = None, checkpointer = None\<rparr>"
  by (simp add: RecordProcessorCheckpointer_PrepareCheckpoint_def)

text \<open>
  C3: for every token produced by PrepareCheckpoint, both fields are nil, and the
  token's Checkpoint() panics with a nil dereference in whatever state it is called:
  it returns neither success nor an error, and makes no call on the ledger.
\<close>

theorem prepared_token_checkpoint_panics:
  "pendingCheckpointSequenceNumber
       (fst (fst (RecordProcessorCheckpointer_PrepareCheckpoint rc p s))) = None
   \<and> checkpointer (fst (fst (RecordProcessorCheckpointer_PrepareCheckpoint rc p s))) = None
   \<and> PreparedCheckpointer_Checkpoint g
       (fst (fst (RecordProcessorCheckpointer_PrepareCheckpoint rc p s))) s'
     = (Panics, fst (fst (RecordProcessorCheckpointer_PrepareCheckpoint rc p s)), s')"
  by (simp add: PrepareCheckpoint_token PreparedCheckpointer_Checkpoint_def)

section \<open>The checks of Checkpoint\<close>

text \<open>
  The three early returns and the path past them, each as the value of the whole
  call. Below, \<open>w1\<close> is the outside state when the owner query has returned: the
  clock is read there.
\<close>

lemma Checkpoint_query_fails:
  assumes "shard rc = Some sh" and "checkpoint rc = Some ck"
    and "GetLeaseOwner ck (ID sh) (world s) = ((owner, Some e), w1)"
  shows "RecordProcessorCheckpointer_Checkpoint g rc q s =
           (Returns (Some e), rc, \<lparr>world = w1, calls = calls s @ [Call_GetLeaseOwner (ID sh)]\<rparr>)"
  using assms by (simp add: RecordProcessorCheckpointer_Checkpoint_def)

lemma Checkpoint_other_owner:
  assumes "shard rc = Some sh" and "checkpoint rc = Some ck"
    and "GetLeaseOwner ck (ID sh) (world s) = ((owner, None), w1)"
    and "owner \<noteq> AssignedTo sh"
  shows "RecordProcessorCheckpointer_Checkpoint g rc q s =
           (Returns (Some ShutdownError), rc,
            \<lparr>world = w1, calls = calls s @ [Call_GetLeaseOwner (ID sh)]\<rparr>)"
proof -
  from assms(4) have "AssignedTo sh \<noteq> owner" by blast
  with assms(1-3) show ?thesis
    by (simp add: RecordProcessorCheckpointer_Checkpoint_def)
qed

lemma Checkpoint_lease_over:
  assumes "shard rc = Some sh" and "checkpoint rc = Some ck"
    and "GetLeaseOwner ck (ID sh) (world s) = ((AssignedTo sh, None), w1)"
    and "After (time_Now g w1) (LeaseTimeout sh)"
  shows "RecordProcessorCheckpointer_Checkpoint g rc q s =
           (Returns (Some LeaseExpiredError), rc,
            \<lparr>world = w1, calls = calls s @ [Call_GetLeaseOwner (ID sh)]\<rparr>)"
  using assms by (simp add: RecordProcessorCheckpointer_Checkpoint_def)

lemma Checkpoint_passes:
  assumes "shard rc = Some sh" and "checkpoint rc = Some ck"
    and "GetLeaseOwner ck (ID sh) (world s) = ((AssignedTo sh, None), w1)"
    and "\<not> After (time_Now g w1) (LeaseTimeout sh)"
    and "CheckpointSequence ck (SetCheckpoint sh (recorded g q)) w1 = (r, w2)"
  shows "RecordProcessorCheckpointer_Checkpoint g rc q s =
           (Returns r, rc\<lparr>shard := Some (SetCheckpoint sh (recorded g q))\<rparr>,
            \<lparr>world = w2,
             calls = calls s @ [Call_GetLeaseOwner (ID sh),
                                Call_CheckpointSequence (SetCheckpoint sh (recorded g q))]\<rparr>)"
proof (cases q)
  case None
  with assms show ?thesis
    by (simp add: RecordProcessorCheckpointer_Checkpoint_def recorded_def Let_def)
next
  case (Some v)
  with assms show ?thesis
    by (simp add: RecordProcessorCheckpointer_Checkpoint_def recorded_def aws_ToString_def Let_def)
qed

lemma Checkpoint_passes_handle:
  assumes "shard rc = Some sh" and "checkpoint rc = Some ck"
    and "GetLeaseOwner ck (ID sh) (world s) = ((AssignedTo sh, None), w1)"
    and "\<not> After (time_Now g w1) (LeaseTimeout sh)"
  shows "fst (snd (RecordProcessorCheckpointer_Checkpoint g rc q s)) =
           rc\<lparr>shard := Some (SetCheckpoint sh (recorded g q))\<rparr>"
proof -
  obtain r w2 where "CheckpointSequence ck (SetCheckpoint sh (recorded g q)) w1 = (r, w2)"
    by (cases "CheckpointSequence ck (SetCheckpoint sh (recorded g q)) w1")
  from Checkpoint_passes [OF assms this] show ?thesis by simp
qed

lemma Checkpoint_SetCheckpoint [simp]: "Checkpoint (SetCheckpoint sh c) = c"
  by (simp add: SetCheckpoint_def)

lemma SetCheckpoint_frame [simp]:
  "ID (SetCheckpoint sh c) = ID sh"
  "AssignedTo (SetCheckpoint sh c) = AssignedTo sh"
  "LeaseTimeout (SetCheckpoint sh c) = LeaseTimeout sh"
  by (simp_all add: SetCheckpoint_def)

lemma SetCheckpoint_twice [simp]: "SetCheckpoint (SetCheckpoint sh c) d = SetCheckpoint sh d"
  by (simp add: SetCheckpoint_def)

lemmas mem_defs =
  mem_globals_def mem_ledger_def mem_GetLeaseOwner_def mem_CheckpointSequence_def
  mem_state_def coordinator_W1_def shard_W1_def NewRecordProcessorCheckpoint_def
  After_def recorded_def

text \<open>
  C4: when the owner query succeeds with the handle's own owner, the lease expiry is
  after the current time and the persist succeeds, Checkpoint(p) returns success and
  the handle's checkpoint value is p afterwards.
\<close>

theorem checkpoint_succeeds_and_records_position:
  assumes "shard rc = Some sh" and "checkpoint rc = Some ck"
    and "GetLeaseOwner ck (ID sh) (world s) = ((AssignedTo sh, None), w1)"
    and "After (LeaseTimeout sh) (time_Now g w1)"
    and "CheckpointSequence ck (SetCheckpoint sh p) w1 = (None, w2)"
  shows "case RecordProcessorCheckpointer_Checkpoint g rc (Some p) s of
           (r, rc', s') \<Rightarrow>
             r = Returns None \<and> map_option Checkpoint (shard rc') = Some p \<and> world s' = w2"
proof -
  from assms(4) have live: "\<not> After (time_Now g w1) (LeaseTimeout sh)"
    by (simp add: After_def)
  from assms(5) have "CheckpointSequence ck (SetCheckpoint sh (recorded g (Some p))) w1 = (None, w2)"
    by (simp add: recorded_def)
  from Checkpoint_passes [OF assms(1-3) live this] show ?thesis
    by (simp add: recorded_def)
qed

theorem checkpoint_succeeds_and_records_position_witness:
  "After (LeaseTimeout (shard_W1 105)) (time_Now mem_globals (world (mem_state 100 ''W1'' True)))
   \<and> (case RecordProcessorCheckpointer_Checkpoint mem_globals (coordinator_W1 105)
             (Some ''49590'') (mem_state 100 ''W1'' True) of
        (r, rc', s') \<Rightarrow>
          r = Returns None \<and> map_option Checkpoint (shard rc') = Some ''49590''
          \<and> world s' = \<lparr>wallclock = 100, owners = [(''shard-0'', ''W1'')],
                         persisted = [(''shard-0'', ''49590'')], writable = True\<rparr>)"
proof
  show "After (LeaseTimeout (shard_W1 105)) (time_Now mem_globals (world (mem_state 100 ''W1'' True)))"
    by (simp add: mem_defs)
  show "case RecordProcessorCheckpointer_Checkpoint mem_globals (coordinator_W1 105)
             (Some ''49590'') (mem_state 100 ''W1'' True) of
        (r, rc', s') \<Rightarrow>
          r = Returns None \<and> map_option Checkpoint (shard rc') = Some ''49590''
          \<and> world s' = \<lparr>wallclock = 100, owners = [(''shard-0'', ''W1'')],
                         persisted = [(''shard-0'', ''49590'')], writable = True\<rparr>"
    by (rule checkpoint_succeeds_and_records_position
          [where sh = "shard_W1 105" and ck = mem_ledger
             and ?w1.0 = "world (mem_state 100 ''W1'' True)"])
       (simp_all add: mem_defs SetCheckpoint_def)
qed

text \<open>
  C5: when the owner query succeeds with an owner other than the handle's own,
  whatever the lease expiry, Checkpoint(p) returns the Shutdown condition; the only
  call made on the ledger is the owner query, and the handle is as before.
\<close>

theorem checkpoint_shutdown_when_owner_differs:
  assumes "shard rc = Some sh" and "checkpoint rc = Some ck"
    and "GetLeaseOwner ck (ID sh) (world s) = ((owner, None), w1)"
    and "owner \<noteq> AssignedTo sh"
  shows "case RecordProcessorCheckpointer_Checkpoint g rc q s of
           (r, rc', s') \<Rightarrow>
             r = Returns (Some ShutdownError) \<and> rc' = rc \<and> world s' = w1
             \<and> calls s' = calls s @ [Call_GetLeaseOwner (ID sh)]"
  using Checkpoint_other_owner [OF assms] by simp

theorem checkpoint_shutdown_when_owner_differs_witness:
  "case RecordProcessorCheckpointer_Checkpoint mem_globals (coordinator_W1 105)
          (Some ''49590'') (mem_state 100 ''W2'' True) of
     (r, rc', s') \<Rightarrow>
       r = Returns (Some ShutdownError) \<and> rc' = coordinator_W1 105
       \<and> world s' = world (mem_state 100 ''W2'' True)
       \<and> calls s' = calls (mem_state 100 ''W2'' True) @ [Call_GetLeaseOwner (ID (shard_W1 105))]"
  by (rule checkpoint_shutdown_when_owner_differs
        [where sh = "shard_W1 105" and ck = mem_ledger and owner = "''W2''"])
     (simp_all add: mem_defs)

text \<open>
  C6, as amended: when the owner query succeeds with the handle's own owner and the
  lease expiry is strictly before the current time, Checkpoint(p) returns the
  LeaseExpired condition; the only call made on the ledger is the owner query, and
  the handle is as before.
\<close>

theorem checkpoint_lease_expired_when_expiry_before_now:
  assumes "shard rc = Some sh" and "checkpoint rc = Some ck"
    and "GetLeaseOwner ck (ID sh) (world s) = ((AssignedTo sh, None), w1)"
    and "LeaseTimeout sh < time_Now g w1"
  shows "case RecordProcessorCheckpointer_Checkpoint g rc q s of
           (r, rc', s') \<Rightarrow>
             r = Returns (Some LeaseExpiredError) \<and> rc' = rc \<and> world s' = w1
             \<and> calls s' = calls s @ [Call_GetLeaseOwner (ID sh)]"
proof -
  from assms(4) have "After (time_Now g w1) (LeaseTimeout sh)"
    by (simp add: After_def)
  from Checkpoint_lease_over [OF assms(1-3) this] show ?thesis by simp
qed

theorem checkpoint_lease_expired_when_expiry_before_now_witness:
  "LeaseTimeout (shard_W1 99) < time_Now mem_globals (world (mem_state 100 ''W1'' True))
   \<and> (case RecordProcessorCheckpointer_Checkpoint mem_globals (coordinator_W1 99)
             (Some ''49590'') (mem_state 100 ''W1'' True) of
        (r, rc', s') \<Rightarrow>
          r = Returns (Some LeaseExpiredError) \<and> rc' = coordinator_W1 99
          \<and> world s' = world (mem_state 100 ''W1'' True)
          \<and> calls s' = calls (mem_state 100 ''W1'' True) @ [Call_GetLeaseOwner (ID (shard_W1 99))])"
proof
  show "LeaseTimeout (shard_W1 99) < time_Now mem_globals (world (mem_state 100 ''W1'' True))"
    by (simp add: mem_defs)
  show "case RecordProcessorCheckpointer_Checkpoint mem_globals (coordinator_W1 99)
             (Some ''49590'') (mem_state 100 ''W1'' True) of
        (r, rc', s') \<Rightarrow>
          r = Returns (Some LeaseExpiredError) \<and> rc' = coordinator_W1 99
          \<and> world s' = world (mem_state 100 ''W1'' True)
          \<and> calls s' = calls (mem_state 100 ''W1'' True) @ [Call_GetLeaseOwner (ID (shard_W1 99))]"
    by (rule checkpoint_lease_expired_when_expiry_before_now
          [where sh = "shard_W1 99" and ck = mem_ledger])
       (simp_all add: mem_defs)
qed

text \<open>
  C6 as stated fails where the lease expiry equals the current time: the owner
  matches, the expiry 100 is at (hence at or before) the clock's 100, and
  Checkpoint returns success after calling the persist operation.
\<close>

theorem checkpoint_at_expiry_instant_persists:
  "LeaseTimeout (shard_W1 100) \<le> time_Now mem_globals (world (mem_state 100 ''W1'' True))
   \<and> fst (RecordProcessorCheckpointer_Checkpoint mem_globals (coordinator_W1 100)
            (Some ''49590'') (mem_state 100 ''W1'' True)) = Returns None
   \<and> fst (RecordProcessorCheckpointer_Checkpoint mem_globals (coordinator_W1 100)
            (Some ''49590'') (mem_state 100 ''W1'' True)) \<noteq> Returns (Some LeaseExpiredError)
   \<and> calls (snd (snd (RecordProcessorCheckpointer_Checkpoint mem_globals (coordinator_W1 100)
            (Some ''49590'') (mem_state 100 ''W1'' True))))
       = [Call_GetLeaseOwner ''shard-0'',
          Call_CheckpointSequence (SetCheckpoint (shard_W1 100) ''49590'')]"
  by (simp add: RecordProcessorCheckpointer_Checkpoint_def mem_defs aws_ToString_def Let_def)

text \<open>
  C7: for every error value e, if the owner query returns e, Checkpoint(p) returns
  exactly e; the only call made on the ledger is the owner query, and the handle is
  as before.
\<close>

theorem checkpoint_propagates_owner_query_error:
  assumes "shard rc = Some sh" and "checkpoint rc = Some ck"
    and "GetLeaseOwner ck (ID sh) (world s) = ((owner, Some e), w1)"
  shows "case RecordProcessorCheckpointer_Checkpoint g rc q s of
           (r, rc', s') \<Rightarrow>
             r = Returns (Some e) \<and> rc' = rc \<and> world s' = w1
             \<and> calls s' = calls s @ [Call_GetLeaseOwner (ID sh)]"
  using Checkpoint_query_fails [OF assms] by simp

theorem checkpoint_propagates_owner_query_error_witness:
  "case RecordProcessorCheckpointer_Checkpoint mem_globals (coordinator_W1 105) (Some ''49590'')
          \<lparr>world = \<lparr>wallclock = 100, owners = [], persisted = [], writable = True\<rparr>, calls = []\<rparr> of
     (r, rc', s') \<Rightarrow>
       r = Returns (Some (LedgerError ''store unavailable'')) \<and> rc' = coordinator_W1 105
       \<and> world s' = \<lparr>wallclock = 100, owners = [], persisted = [], writable = True\<rparr>
       \<and> calls s' = [] @ [Call_GetLeaseOwner (ID (shard_W1 105))]"
  using checkpoint_propagates_owner_query_error
          [where sh = "shard_W1 105" and ck = mem_ledger and owner = "[]"
             and e = "LedgerError ''store unavailable''" and rc = "coordinator_W1 105"
             and s = "\<lparr>world = \<lparr>wallclock = 100, owners = [], persisted = [], writable = True\<rparr>,
                        calls = []\<rparr>"
             and ?w1.0 = "\<lparr>wallclock = 100, owners = [], persisted = [], writable = True\<rparr>"
             and g = mem_globals and q = "Some ''49590''"]
  by (simp add: mem_defs)

text \<open>
  C8: whenever the ownership and lease checks pass, the handle's checkpoint value is
  set (to p, or to the shard-end sentinel for an absent position) before the persist
  is attempted: the persist operation is called with the handle already updated, and
  whatever it returns, an error included, the handle keeps the new value.
\<close>

theorem checkpoint_advances_handle_before_persist:
  assumes "shard rc = Some sh" and "checkpoint rc = Some ck"
    and "GetLeaseOwner ck (ID sh) (world s) = ((AssignedTo sh, None), w1)"
    and "\<not> After (time_Now g w1) (LeaseTimeout sh)"
    and "CheckpointSequence ck (SetCheckpoint sh (recorded g q)) w1 = (r, w2)"
  shows "case RecordProcessorCheckpointer_Checkpoint g rc q s of
           (r', rc', s') \<Rightarrow>
             r' = Returns r
             \<and> map_option Checkpoint (shard rc') = Some (recorded g q)
             \<and> calls s' = calls s @ [Call_GetLeaseOwner (ID sh),
                                       Call_CheckpointSequence (SetCheckpoint sh (recorded g q))]"
  using Checkpoint_passes [OF assms] by simp

theorem checkpoint_advances_handle_before_persist_witness:
  "case RecordProcessorCheckpointer_Checkpoint mem_globals (coordinator_W1 105)
          (Some ''49590'') (mem_state 100 ''W1'' False) of
     (r', rc', s') \<Rightarrow>
       r' = Returns (Some (LedgerError ''write rejected''))
       \<and> map_option Checkpoint (shard rc') = Some ''49590''
       \<and> calls s' = [Call_GetLeaseOwner ''shard-0'',
                      Call_CheckpointSequence (SetCheckpoint (shard_W1 105) ''49590'')]"
  using checkpoint_advances_handle_before_persist
          [where sh = "shard_W1 105" and ck = mem_ledger and rc = "coordinator_W1 105"
             and s = "mem_state 100 ''W1'' False" and g = mem_globals and q = "Some ''49590''"
             and ?w1.0 = "world (mem_state 100 ''W1'' False)"
             and ?w2.0 = "world (mem_state 100 ''W1'' False)"
             and r = "Some (LedgerError ''write rejected'')"]
  by (simp add: mem_defs SetCheckpoint_def)

text \<open>
  In every state, a concrete position equal to the sentinel string is handled as the
  absent position is, up to the branch taken.
\<close>

lemma Checkpoint_sentinel_string:
  "RecordProcessorCheckpointer_Checkpoint g rc (Some (chk_ShardEnd g)) s =
   RecordProcessorCheckpointer_Checkpoint g rc None s"
  by (simp add: RecordProcessorCheckpointer_Checkpoint_def aws_ToString_def Let_def
           split: option.split prod.split)

text \<open>
  C9, as amended: for every shard state passing the ownership and lease checks,
  Checkpoint with an absent position sets the handle's checkpoint value to the
  shard-end sentinel and then calls the persist operation with that handle,
  returning what it returns; the value recorded for a concrete position p is the
  sentinel exactly when p is the sentinel string itself.
\<close>

theorem checkpoint_absent_records_shard_end:
  assumes "shard rc = Some sh" and "checkpoint rc = Some ck"
    and "GetLeaseOwner ck (ID sh) (world s) = ((AssignedTo sh, None), w1)"
    and "\<not> After (time_Now g w1) (LeaseTimeout sh)"
    and "CheckpointSequence ck (SetCheckpoint sh (chk_ShardEnd g)) w1 = (r, w2)"
  shows "(case RecordProcessorCheckpointer_Checkpoint g rc None s of
            (r', rc', s') \<Rightarrow>
              r' = Returns r
              \<and> map_option Checkpoint (shard rc') = Some (chk_ShardEnd g)
              \<and> world s' = w2
              \<and> calls s' = calls s @ [Call_GetLeaseOwner (ID sh),
                                        Call_CheckpointSequence (SetCheckpoint sh (chk_ShardEnd g))])
         \<and> (\<forall>p. (map_option Checkpoint
                     (shard (fst (snd (RecordProcessorCheckpointer_Checkpoint g rc (Some p) s))))
                   = Some (chk_ShardEnd g))
                = (p = chk_ShardEnd g))"
proof
  from assms(5) have "CheckpointSequence ck (SetCheckpoint sh (recorded g None)) w1 = (r, w2)"
    by (simp add: recorded_def)
  from Checkpoint_passes [OF assms(1-4) this]
  show "case RecordProcessorCheckpointer_Checkpoint g rc None s of
          (r', rc', s') \<Rightarrow>
            r' = Returns r
            \<and> map_option Checkpoint (shard rc') = Some (chk_ShardEnd g)
            \<and> world s' = w2
            \<and> calls s' = calls s @ [Call_GetLeaseOwner (ID sh),
                                      Call_CheckpointSequence (SetCheckpoint sh (chk_ShardEnd g))]"
    by (simp add: recorded_def)
next
  show "\<forall>p. (map_option Checkpoint
                (shard (fst (snd (RecordProcessorCheckpointer_Checkpoint g rc (Some p) s))))
              = Some (chk_ShardEnd g))
           = (p = chk_ShardEnd g)"
  proof
    fix p
    from Checkpoint_passes_handle [OF assms(1-4), of "Some p"]
    show "(map_option Checkpoint
             (shard (fst (snd (RecordProcessorCheckpointer_Checkpoint g rc (Some p) s))))
           = Some (chk_ShardEnd g))
        = (p = chk_ShardEnd g)"
      by (simp add: recorded_def)
  qed
qed

theorem checkpoint_absent_records_shard_end_witness:
  "(case RecordProcessorCheckpointer_Checkpoint mem_globals (coordinator_W1 105) None
           (mem_state 100 ''W1'' True) of
      (r', rc', s') \<Rightarrow>
        r' = Returns None
        \<and> map_option Checkpoint (shard rc') = Some ''SHARD_END''
        \<and> world s' = \<lparr>wallclock = 100, owners = [(''shard-0'', ''W1'')],
                       persisted = [(''shard-0'', ''SHARD_END'')], writable = True\<rparr>
        \<and> calls s' = [Call_GetLeaseOwner ''shard-0'',
                       Call_CheckpointSequence (SetCheckpoint (shard_W1 105) ''SHARD_END'')])
   \<and> (\<forall>p. (map_option Checkpoint
               (shard (fst (snd (RecordProcessorCheckpointer_Checkpoint mem_globals
                  (coordinator_W1 105) (Some p) (mem_state 100 ''W1'' True)))))
             = Some ''SHARD_END'')
          = (p = ''SHARD_END''))"
  using checkpoint_absent_records_shard_end
          [where sh = "shard_W1 105" and ck = mem_ledger and rc = "coordinator_W1 105"
             and s = "mem_state 100 ''W1'' True" and g = mem_globals
             and ?w1.0 = "world (mem_state 100 ''W1'' True)"
             and ?w2.0 = "\<lparr>wallclock = 100, owners = [(''shard-0'', ''W1'')],
                             persisted = [(''shard-0'', ''SHARD_END'')], writable = True\<rparr>"
             and r = None]
  by (simp add: mem_defs SetCheckpoint_def)

text \<open>
  C9 as stated fails: the sentinel is itself a string a caller can pass as a
  position. Checkpoint at the concrete position \<open>''SHARD_END''\<close> leaves the handle
  with the very value that Checkpoint at the absent position leaves.
\<close>

theorem shard_end_sentinel_is_a_position_string:
  "map_option Checkpoint
     (shard (fst (snd (RecordProcessorCheckpointer_Checkpoint mem_globals (coordinator_W1 105)
        (Some ''SHARD_END'') (mem_state 100 ''W1'' True)))))
     = Some (chk_ShardEnd mem_globals)
   \<and> map_option Checkpoint
     (shard (fst (snd (RecordProcessorCheckpointer_Checkpoint mem_globals (coordinator_W1 105)
        None (mem_state 100 ''W1'' True)))))
     = Some (chk_ShardEnd mem_globals)"
  by (simp add: RecordProcessorCheckpointer_Checkpoint_def mem_defs aws_ToString_def Let_def)

text \<open>
  C10: Checkpoint(p) called twice in immediate succession, the second call in the
  state the first one leaves, succeeds both times when at each call the ledger's
  owner is the handle's own, the lease expiry is after the current time and the
  persist succeeds; after each call the handle's checkpoint value is p.
\<close>

theorem checkpoint_twice_succeeds_twice:
  assumes "shard rc = Some sh" and "checkpoint rc = Some ck"
    and "GetLeaseOwner ck (ID sh) (world s) = ((AssignedTo sh, None), w1)"
    and "After (LeaseTimeout sh) (time_Now g w1)"
    and "CheckpointSequence ck (SetCheckpoint sh p) w1 = (None, w2)"
    and "GetLeaseOwner ck (ID sh) w2 = ((AssignedTo sh, None), w3)"
    and "After (LeaseTimeout sh) (time_Now g w3)"
    and "CheckpointSequence ck (SetCheckpoint sh p) w3 = (None, w4)"
  shows "case RecordProcessorCheckpointer_Checkpoint g rc (Some p) s of
           (r1, rc1, s1) \<Rightarrow>
             r1 = Returns None \<and> map_option Checkpoint (shard rc1) = Some p
             \<and> (case RecordProcessorCheckpointer_Checkpoint g rc1 (Some p) s1 of
                   (r2, rc2, s2) \<Rightarrow>
                     r2 = Returns None \<and> map_option Checkpoint (shard rc2) = Some p
                     \<and> world s2 = w4)"
proof -
  let ?sh = "SetCheckpoint sh p"
  let ?rc1 = "rc\<lparr>shard := Some ?sh\<rparr>"
  let ?s1 = "\<lparr>world = w2,
              calls = calls s @ [Call_GetLeaseOwner (ID sh), Call_CheckpointSequence ?sh]\<rparr>"
  from assms(4) have live1: "\<not> After (time_Now g w1) (LeaseTimeout sh)"
    by (simp add: After_def)
  from assms(5) have "CheckpointSequence ck (SetCheckpoint sh (recorded g (Some p))) w1 = (None, w2)"
    by (simp add: recorded_def)
  from Checkpoint_passes [OF assms(1-3) live1 this]
  have first: "RecordProcessorCheckpointer_Checkpoint g rc (Some p) s = (Returns None, ?rc1, ?s1)"
    by (simp add: recorded_def)
  have sh1: "shard ?rc1 = Some ?sh" by simp
  from assms(2) have ck1: "checkpoint ?rc1 = Some ck" by simp
  from assms(6) have q2: "GetLeaseOwner ck (ID ?sh) (world ?s1) = ((AssignedTo ?sh, None), w3)"
    by simp
  from assms(7) have live2: "\<not> After (time_Now g w3) (LeaseTimeout ?sh)"
    by (simp add: After_def)
  from assms(8) have "CheckpointSequence ck (SetCheckpoint ?sh (recorded g (Some p))) w3 = (None, w4)"
    by (simp add: recorded_def)
  from Checkpoint_passes [OF sh1 ck1 q2 live2 this]
  have second: "RecordProcessorCheckpointer_Checkpoint g ?rc1 (Some p) ?s1 =
                  (Returns None, ?rc1,
                   \<lparr>world = w4,
                    calls = calls ?s1 @ [Call_GetLeaseOwner (ID sh), Call_CheckpointSequence ?sh]\<rparr>)"
    by (simp add: recorded_def)
  show ?thesis by (simp add: first second)
qed

theorem checkpoint_twice_succeeds_twice_witness:
  "case RecordProcessorCheckpointer_Checkpoint mem_globals (coordinator_W1 105)
          (Some ''49590'') (mem_state 100 ''W1'' True) of
     (r1, rc1, s1) \<Rightarrow>
       r1 = Returns None \<and> map_option Checkpoint (shard rc1) = Some ''49590''
       \<and> (case RecordProcessorCheckpointer_Checkpoint mem_globals rc1 (Some ''49590'') s1 of
             (r2, rc2, s2) \<Rightarrow>
               r2 = Returns None \<and> map_option Checkpoint (shard rc2) = Some ''49590''
               \<and> world s2 = \<lparr>wallclock = 100, owners = [(''shard-0'', ''W1'')],
                   persisted = [(''shard-0'', ''49590''), (''shard-0'', ''49590'')],
                   writable = True\<rparr>)"
  by (rule checkpoint_twice_succeeds_twice
        [where sh = "shard_W1 105" and ck = mem_ledger
           and ?w1.0 = "world (mem_state 100 ''W1'' True)"
           and ?w2.0 = "\<lparr>wallclock = 100, owners = [(''shard-0'', ''W1'')],
                           persisted = [(''shard-0'', ''49590'')], writable = True\<rparr>"
           and ?w3.0 = "\<lparr>wallclock = 100, owners = [(''shard-0'', ''W1'')],
                           persisted = [(''shard-0'', ''49590'')], writable = True\<rparr>"])
     (simp_all add: mem_defs SetCheckpoint_def)

section \<open>Prepare and commit against an immediate checkpoint\<close>

text \<open>
  PrepareCheckpoint makes no call on the ledger, leaves the state as it is and
  returns no error, whatever the ownership state.
\<close>

lemma PrepareCheckpoint_no_effect:
  "snd (RecordProcessorCheckpointer_PrepareCheckpoint rc p s) = s
   \<and> snd (fst (RecordProcessorCheckpointer_PrepareCheckpoint rc p s)) = None"
  by (simp add: RecordProcessorCheckpointer_PrepareCheckpoint_def)

text \<open>
  C1 at owner W1, local owner W1, lease expiry 5 ahead, position 49590: the
  immediate Checkpoint returns success and records the position, while Checkpoint
  on the token returned by PrepareCheckpoint for the same position panics, calls
  nothing on the ledger and leaves the state as it was.
\<close>

theorem commit_of_prepared_token_is_not_checkpoint:
  "RecordProcessorCheckpointer_Checkpoint mem_globals (coordinator_W1 105) (Some ''49590'')
       (mem_state 100 ''W1'' True)
     = (Returns None,
        (coordinator_W1 105)\<lparr>shard := Some (SetCheckpoint (shard_W1 105) ''49590'')\<rparr>,
        \<lparr>world = \<lparr>wallclock = 100, owners = [(''shard-0'', ''W1'')],
                   persisted = [(''shard-0'', ''49590'')], writable = True\<rparr>,
         calls = [Call_GetLeaseOwner ''shard-0'',
                  Call_CheckpointSequence (SetCheckpoint (shard_W1 105) ''49590'')]\<rparr>)
   \<and> PreparedCheckpointer_Checkpoint mem_globals
       (fst (fst (RecordProcessorCheckpointer_PrepareCheckpoint (coordinator_W1 105)
          (Some ''49590'') (mem_state 100 ''W1'' True))))
       (mem_state 100 ''W1'' True)
     = (Panics, \<lparr>pendingCheckpointSequenceNumber = None, checkpointer = None\<rparr>,
        mem_state 100 ''W1'' True)"
  by (simp add: RecordProcessorCheckpointer_Checkpoint_def PreparedCheckpointer_Checkpoint_def
        RecordProcessorCheckpointer_PrepareCheckpoint_def mem_defs aws_ToString_def Let_def
        SetCheckpoint_def)

text \<open>
  C2 at position 49590: the token returned by PrepareCheckpoint holds no position
  and no coordinator, and GetPendingCheckpoint on it returns nil, not the position
  that was passed.
\<close>

theorem prepared_token_pins_nothing:
  "GetPendingCheckpoint
     (fst (fst (RecordProcessorCheckpointer_PrepareCheckpoint (coordinator_W1 105)
        (Some ''49590'') (mem_state 100 ''W1'' True)))) = None
   \<and> GetPendingCheckpoint
     (fst (fst (RecordProcessorCheckpointer_PrepareCheckpoint (coordinator_W1 105)
        (Some ''49590'') (mem_state 100 ''W1'' True))))
     \<noteq> Some \<lparr>SequenceNumber = Some ''49590'', SubSequenceNumber = 0\<rparr>
   \<and> checkpointer
     (fst (fst (RecordProcessorCheckpointer_PrepareCheckpoint (coordinator_W1 105)
        (Some ''49590'') (mem_state 100 ''W1'' True)))) = None"
  by (simp add: GetPendingCheckpoint_def RecordProcessorCheckpointer_PrepareCheckpoint_def)

end
